theory Spec2Isabelle
  imports Main
begin

section \<open>Process configuration, exceptions and observable effects\<close>

text \<open>
  The management app reads its configuration from \<open>process.env\<close>. A variable is a string
  or is undefined; JavaScript's \<open>!v\<close> holds for \<open>undefined\<close> and for the empty string.

  The value of \<open>SSO_SECRET\<close> is handed to \<open>jsonwebtoken\<close>, which asks Node's \<open>crypto\<close> whether
  the string is a key in PEM form before it takes it as the bytes of a shared secret. The
  string is therefore represented by what \<open>crypto\<close> makes of it:
  \<^item> \<open>Symmetric s\<close>: the string \<open>s\<close>, which is no PEM key (\<open>createPublicKey\<close> and
    \<open>createPrivateKey\<close> both fail); the empty string is \<open>Symmetric []\<close>;
  \<^item> \<open>PublicPem k\<close>: a PEM public key or certificate (only \<open>createPublicKey\<close> succeeds);
  \<^item> \<open>PrivatePem k\<close>: a PEM private key (both succeed), \<open>k\<close> being its public half.

  Of an asymmetric key the library reads its type, whether its own validation of the key
  (type, curve, RSA-PSS parameters) passes for a given algorithm, and, when it falls back
  to the bytes of a public PEM, its text.
\<close>

datatype key_type = Rsa | RsaPss | Ec | OtherKeyType

record asymmetric_key =
  asymmetricKeyType :: key_type
  validFor :: "string list"
  pem :: string

datatype key_material = Symmetric string | PublicPem asymmetric_key | PrivatePem asymmetric_key

record env =
  SSO_SECRET :: "key_material option"
  MANAGEMENT_SUPABASE_SERVICE_ROLE_KEY :: "string option"
  CLOUD_DEPLOYMENT_URL :: "string option"
  NEXT_PUBLIC_CLOUD_DEPLOYMENT_URL :: "string option"

definition truthy :: "string option \<Rightarrow> bool" where
  "truthy v = (case v of None \<Rightarrow> False | Some s \<Rightarrow> s \<noteq> [])"

text \<open>The negation of \<open>!secret\<close>: the variable is set and not the empty string.\<close>

definition secret_set :: "key_material option \<Rightarrow> bool" where
  "secret_set v = (case v of None \<Rightarrow> False | Some k \<Rightarrow> k \<noteq> Symmetric [])"

text \<open>\<open>v || d\<close> on an optional string.\<close>

definition or_else :: "string option \<Rightarrow> string \<Rightarrow> string" where
  "or_else v d = (case v of None \<Rightarrow> d | Some s \<Rightarrow> if s = [] then d else s)"

text \<open>A thrown \<open>Error\<close> with its message.\<close>

datatype exn = Error string

text \<open>
  What a request does besides answering: lines written with \<open>console.log\<close>, lines
  written with \<open>console.error\<close> (the label and the message or code of the error passed
  with it), and the reads of the management database, each with its table and its \<open>.eq\<close>
  filters in the order written.
\<close>

datatype event =
    ConsoleLog string
  | ConsoleError string string
  | Select string "(string \<times> string) list"

section \<open>The \<open>jsonwebtoken\<close> library, symbolically\<close>

text \<open>
  \<open>sso-tokens.ts\<close> calls \<open>jwt.sign\<close>, \<open>jwt.verify\<close> and \<open>jwt.decode\<close> of the npm package
  \<open>jsonwebtoken\<close>. The package is not part of the repository; it is modelled here
  symbolically, from its documented behaviour: a token string is represented by what it
  parses to, and a signature by the key it verifies under.
\<close>

text \<open>\<open>Omit<SSOTokenPayload, 'iat' | 'exp'>\<close>: the argument of \<open>generateSSOToken\<close>.\<close>

record SSOTokenInput =
  tenant_id :: string
  user_id :: string
  email :: string

text \<open>
  A time claim as it stands in a decoded payload. The interface declares \<open>exp\<close> a number,
  but the payload of a token is whatever JSON its sender wrote, and \<open>jwt.decode\<close> hands it
  over unchecked. A member that is present is
  \<^item> \<open>Number n\<close>: a JSON number (an integer; fractions are not represented);
  \<^item> \<open>Falsy\<close>: \<open>null\<close>, \<open>false\<close> or the empty string;
  \<^item> \<open>Truthy c\<close>: \<open>true\<close>, a non-empty string, an array or an object, where \<open>c\<close> is the
    integer the value converts to in an arithmetic expression, or \<open>None\<close> when it converts
    to \<open>NaN\<close> (as the string \<open>'abc'\<close> does).
\<close>

datatype time_claim = Number int | Falsy | Truthy "int option"

text \<open>\<open>!v\<close> on a time claim that may be missing.\<close>

definition not_claim :: "time_claim option \<Rightarrow> bool" where
  "not_claim v = (case v of None \<Rightarrow> True | Some (Number n) \<Rightarrow> n = 0
                   | Some Falsy \<Rightarrow> True | Some (Truthy _) \<Rightarrow> False)"

text \<open>\<open>v * 1000\<close> on a time claim that is present and truthy; \<open>None\<close> is \<open>NaN\<close>.\<close>

definition times_1000 :: "time_claim \<Rightarrow> int option" where
  "times_1000 v = (case v of Number n \<Rightarrow> Some (n * 1000) | Falsy \<Rightarrow> Some 0
                    | Truthy c \<Rightarrow> map_option (\<lambda>n. n * 1000) c)"

text \<open>
  \<open>interface SSOTokenPayload\<close>; \<open>iat\<close> and \<open>exp\<close> are seconds since the epoch when they are
  numbers.
\<close>

record SSOTokenPayload = SSOTokenInput +
  iat :: "nat option"
  exp :: "time_claim option"

text \<open>
  The third segment of a compact token: empty; a valid MAC of the first two segments
  under the given bytes, with the header's algorithm; a valid asymmetric signature of
  them, with the header's algorithm, under the public key of the given PEM text; or
  bytes that are neither under any key (a forged or tampered token).
\<close>

datatype signature = Unsigned | HMAC string | Asymmetric string | Forged

text \<open>
  A three-segment token whose header and payload decode: the header's \<open>alg\<close>, the
  payload's custom claims with \<open>iat\<close> and \<open>exp\<close>, and the registered claims \<open>iss\<close>, \<open>aud\<close>
  (absent, one string, or an array) and \<open>nbf\<close> that \<open>jwt.verify\<close> reads.
\<close>

record jws =
  alg :: string
  claims :: SSOTokenPayload
  iss :: "string option"
  aud :: "string list"
  nbf :: "time_claim option"
  sig :: signature

text \<open>
  A non-empty token string is one of:
  \<^item> \<open>Malformed\<close>: not three dot-separated segments, or a header that does not decode
    (\<open>jwt.decode\<close> returns null); also a token whose header has no type \<open>JWT\<close> and whose
    payload is not a JSON object, which \<open>jwt.decode\<close> returns as a string without claims
    and \<open>jwt.verify\<close> rejects with a \<open>JsonWebTokenError\<close> as well;
  \<^item> \<open>Unparsable\<close>: three segments and a header of type \<open>JWT\<close>, but a payload that is not
    JSON (\<open>jwt.decode\<close> throws the \<open>SyntaxError\<close> of \<open>JSON.parse\<close>);
  \<^item> \<open>Compact j\<close>: a token that decodes to \<open>j\<close>.
\<close>

datatype jwt = Malformed | Unparsable | Compact jws

text \<open>
  What the library throws. \<open>TokenExpiredError\<close> and \<open>NotBeforeError\<close> are subclasses of
  \<open>JsonWebTokenError\<close>; the \<open>SyntaxError\<close> of \<open>JSON.parse\<close> and the plain \<open>Error\<close> of the
  key validation are not.
\<close>

datatype jwt_error =
    TokenExpiredError
  | NotBeforeError
  | JsonWebTokenError string
  | SyntaxError
  | PlainError string

definition instanceof_TokenExpiredError :: "jwt_error \<Rightarrow> bool" where
  "instanceof_TokenExpiredError e = (e = TokenExpiredError)"

definition instanceof_JsonWebTokenError :: "jwt_error \<Rightarrow> bool" where
  "instanceof_JsonWebTokenError e =
     (case e of SyntaxError \<Rightarrow> False | PlainError _ \<Rightarrow> False | _ \<Rightarrow> True)"

record sign_options =
  expiresIn :: nat
  issuer :: string
  audience :: string

record verify_options =
  v_issuer :: string
  v_audience :: string

text \<open>
  The algorithms \<open>jwt.verify\<close> accepts when the caller names none: they follow from the
  kind of key, so a token of an HMAC algorithm is accepted for a symmetric secret only.
\<close>

definition HS_ALGS :: "string list" where
  "HS_ALGS = [''HS256'', ''HS384'', ''HS512'']"

definition RSA_KEY_ALGS :: "string list" where
  "RSA_KEY_ALGS = [''RS256'', ''RS384'', ''RS512'', ''PS256'', ''PS384'', ''PS512'']"

definition EC_KEY_ALGS :: "string list" where
  "EC_KEY_ALGS = [''ES256'', ''ES384'', ''ES512'']"

definition PUB_KEY_ALGS :: "string list" where
  "PUB_KEY_ALGS = [''RS256'', ''RS384'', ''RS512'', ''PS256'', ''PS384'', ''PS512'']"

definition default_algorithms :: "key_material \<Rightarrow> string list" where
  "default_algorithms key =
     (case key of
        Symmetric _ \<Rightarrow> HS_ALGS
      | PublicPem k \<Rightarrow>
          (case asymmetricKeyType k of
             Rsa \<Rightarrow> RSA_KEY_ALGS | RsaPss \<Rightarrow> RSA_KEY_ALGS | Ec \<Rightarrow> EC_KEY_ALGS
           | OtherKeyType \<Rightarrow> PUB_KEY_ALGS)
      | PrivatePem k \<Rightarrow>
          (case asymmetricKeyType k of
             Rsa \<Rightarrow> RSA_KEY_ALGS | RsaPss \<Rightarrow> RSA_KEY_ALGS | Ec \<Rightarrow> EC_KEY_ALGS
           | OtherKeyType \<Rightarrow> PUB_KEY_ALGS))"

text \<open>Whether the signature of a token is valid under the key given to \<open>jwt.verify\<close>.\<close>

definition signature_valid :: "signature \<Rightarrow> key_material \<Rightarrow> bool" where
  "signature_valid s key =
     (case key of
        Symmetric secret \<Rightarrow> s = HMAC secret
      | PublicPem k \<Rightarrow> s = Asymmetric (pem k)
      | PrivatePem k \<Rightarrow> s = Asymmetric (pem k))"

text \<open>
  \<open>jwt.sign(payload, secret, options)\<close> at \<open>Date.now() = now\<close> (milliseconds): the default
  algorithm HS256, \<open>iat\<close> the current second, \<open>exp = iat + expiresIn\<close> (the span \<open>'15m'\<close>
  is 900 seconds), \<open>iss\<close> and \<open>aud\<close> from the options. The library throws for an empty
  secret and for a PEM private key, which is no key for HS256; the text of a PEM public
  key is taken as the bytes of the secret.
\<close>

definition jwt_sign :: "SSOTokenInput \<Rightarrow> key_material \<Rightarrow> sign_options \<Rightarrow> nat \<Rightarrow> exn + jwt" where
  "jwt_sign p secretOrPrivateKey options now =
     (let timestamp = now div 1000;
          signed = (\<lambda>bytes.
            Compact \<lparr>alg = ''HS256'',
                     claims = \<lparr>tenant_id = tenant_id p, user_id = user_id p, email = email p,
                               iat = Some timestamp,
                               exp = Some (Number (int (timestamp + expiresIn options)))\<rparr>,
                     iss = Some (issuer options),
                     aud = [audience options],
                     nbf = None,
                     sig = HMAC bytes\<rparr>)
      in case secretOrPrivateKey of
           Symmetric s \<Rightarrow>
             if s = [] then Inl (Error ''secretOrPrivateKey must have a value'')
             else Inr (signed s)
         | PublicPem k \<Rightarrow> Inr (signed (pem k))
         | PrivatePem k \<Rightarrow>
             Inl (Error ''secretOrPrivateKey must be a symmetric key when using HS256''))"

text \<open>
  \<open>jwt.verify(token, secret, {issuer, audience})\<close> at \<open>Date.now() = now\<close>, in the order of
  the library: shape, presence of signature and key, algorithm against the algorithms of
  the kind of key, validation of an asymmetric key for the algorithm, signature, \<open>nbf\<close>,
  \<open>exp\<close>, audience, issuer. \<open>Inl\<close> is the error thrown. The messages are the library's,
  without the option names and expected values it quotes in some of them;
  \<open>sso-tokens.ts\<close> looks at the class of the error only.
\<close>

definition jwt_verify ::
  "jwt \<Rightarrow> key_material \<Rightarrow> verify_options \<Rightarrow> nat \<Rightarrow> jwt_error + SSOTokenPayload" where
  "jwt_verify t secretOrPublicKey options now =
     (let clockTimestamp = int (now div 1000) in
      case t of
        Malformed \<Rightarrow> Inl (JsonWebTokenError ''jwt malformed'')
      | Unparsable \<Rightarrow> Inl SyntaxError
      | Compact j \<Rightarrow>
          if sig j = Unsigned \<and> secretOrPublicKey \<noteq> Symmetric [] then
            Inl (JsonWebTokenError ''jwt signature is required'')
          else if sig j \<noteq> Unsigned \<and> secretOrPublicKey = Symmetric [] then
            Inl (JsonWebTokenError ''secret or public key must be provided'')
          else if sig j = Unsigned then
            Inl (JsonWebTokenError ''please specify none in algorithms to verify unsigned tokens'')
          else if alg j \<notin> set (default_algorithms secretOrPublicKey) then
            Inl (JsonWebTokenError ''invalid algorithm'')
          else if (case secretOrPublicKey of
                     Symmetric _ \<Rightarrow> False
                   | PublicPem k \<Rightarrow> alg j \<notin> set (validFor k)
                   | PrivatePem k \<Rightarrow> alg j \<notin> set (validFor k)) then
            Inl (PlainError ''Invalid key for this operation'')
          else if \<not> signature_valid (sig j) secretOrPublicKey then
            Inl (JsonWebTokenError ''invalid signature'')
          else
            (case nbf j of
               Some Falsy \<Rightarrow> Inl (JsonWebTokenError ''invalid nbf value'')
             | Some (Truthy _) \<Rightarrow> Inl (JsonWebTokenError ''invalid nbf value'')
             | _ \<Rightarrow>
                 if (case nbf j of Some (Number n) \<Rightarrow> n > clockTimestamp | _ \<Rightarrow> False) then
                   Inl NotBeforeError
                 else
                   (case exp (claims j) of
                      Some Falsy \<Rightarrow> Inl (JsonWebTokenError ''invalid exp value'')
                    | Some (Truthy _) \<Rightarrow> Inl (JsonWebTokenError ''invalid exp value'')
                    | _ \<Rightarrow>
                        if (case exp (claims j) of
                              Some (Number x) \<Rightarrow> clockTimestamp \<ge> x | _ \<Rightarrow> False) then
                          Inl TokenExpiredError
                        else if v_audience options \<notin> set (aud j) then
                          Inl (JsonWebTokenError ''jwt audience invalid'')
                        else if iss j \<noteq> Some (v_issuer options) then
                          Inl (JsonWebTokenError ''jwt issuer invalid'')
                        else Inr (claims j))))"

text \<open>
  \<open>jwt.decode(token)\<close>: the payload without any check of the signature or of the claims;
  no claims for a malformed token; throws when the payload of a token of type \<open>JWT\<close> is not
  JSON.
\<close>

definition jwt_decode :: "jwt \<Rightarrow> jwt_error + SSOTokenPayload option" where
  "jwt_decode t =
     (case t of
        Malformed \<Rightarrow> Inr None
      | Unparsable \<Rightarrow> Inl SyntaxError
      | Compact j \<Rightarrow> Inr (Some (claims j)))"

section \<open>\<open>lib/sso-tokens.ts\<close>\<close>

definition generateSSOToken :: "env \<Rightarrow> nat \<Rightarrow> SSOTokenInput \<Rightarrow> exn + jwt" where
  "generateSSOToken e now payload =
     (if \<not> secret_set (SSO_SECRET e) then Inl (Error ''SSO_SECRET not configured'')
      else jwt_sign payload (the (SSO_SECRET e))
             \<lparr>expiresIn = 900,
              issuer = ''ycode-cloud-management'',
              audience = ''ycode-cloud-deployment''\<rparr> now)"

text \<open>
  \<open>generateSSOToken\<close> has no \<open>try\<close>: what \<open>jwt.sign\<close> throws, it throws.
  \<open>validateSSOToken\<close> returns the payload or null, and writes one line to the console
  for a \<open>JsonWebTokenError\<close>; the missing secret is thrown before the \<open>try\<close>.
\<close>

definition validateSSOToken :: "env \<Rightarrow> nat \<Rightarrow> jwt \<Rightarrow> exn + (event list \<times> SSOTokenPayload option)" where
  "validateSSOToken e now token =
     (if \<not> secret_set (SSO_SECRET e) then Inl (Error ''SSO_SECRET not configured'')
      else
        case jwt_verify token (the (SSO_SECRET e))
               \<lparr>v_issuer = ''ycode-cloud-management'',
                v_audience = ''ycode-cloud-deployment''\<rparr> now of
          Inr payload \<Rightarrow> Inr ([], Some payload)
        | Inl error \<Rightarrow>
            if instanceof_TokenExpiredError error then
              Inr ([ConsoleLog ''SSO token expired''], None)
            else if instanceof_JsonWebTokenError error then
              Inr ([ConsoleLog ''Invalid SSO token''], None)
            else Inr ([], None))"

text \<open>\<open>`${deploymentUrl}?token=${token}`\<close>: the base URL and the token appended to it.\<close>

record access_url =
  deploymentUrl :: string
  token_param :: jwt

definition generateAccessURL :: "env \<Rightarrow> nat \<Rightarrow> string \<Rightarrow> string \<Rightarrow> string \<Rightarrow> exn + access_url" where
  "generateAccessURL e now tenantId userId email' =
     (case generateSSOToken e now \<lparr>tenant_id = tenantId, user_id = userId, email = email'\<rparr> of
        Inl err \<Rightarrow> Inl err
      | Inr token \<Rightarrow>
          Inr \<lparr>deploymentUrl = or_else (NEXT_PUBLIC_CLOUD_DEPLOYMENT_URL e) ''https://cloud.ycode.app'',
               token_param = token\<rparr>)"

text \<open>
  A \<open>Date\<close>: a time in milliseconds since the epoch, or the invalid date that \<open>new Date\<close>
  makes of \<open>NaN\<close> and of a number beyond its range of \<open>8.64e15\<close> milliseconds either way.
\<close>

datatype date = Date int | InvalidDate

definition new_Date :: "int option \<Rightarrow> date" where
  "new_Date v =
     (case v of
        None \<Rightarrow> InvalidDate
      | Some ms \<Rightarrow> if \<bar>ms\<bar> \<le> 8640000000000000 then Date ms else InvalidDate)"

text \<open>
  \<open>isTokenExpired\<close> and \<open>getTokenExpiration\<close> at \<open>Date.now() = now\<close>. Both read \<open>exp\<close> as
  \<open>jwt.decode\<close> returns it; a comparison with \<open>NaN\<close> is false.
\<close>

definition isTokenExpired :: "nat \<Rightarrow> jwt \<Rightarrow> bool" where
  "isTokenExpired now token =
     (case jwt_decode token of
        Inl _ \<Rightarrow> True
      | Inr None \<Rightarrow> True
      | Inr (Some decoded) \<Rightarrow>
          if not_claim (exp decoded) then True
          else (case times_1000 (the (exp decoded)) of
                  None \<Rightarrow> False
                | Some ms \<Rightarrow> int now \<ge> ms))"

definition getTokenExpiration :: "jwt \<Rightarrow> date option" where
  "getTokenExpiration token =
     (case jwt_decode token of
        Inl _ \<Rightarrow> None
      | Inr None \<Rightarrow> None
      | Inr (Some decoded) \<Rightarrow>
          if not_claim (exp decoded) then None
          else Some (new_Date (times_1000 (the (exp decoded)))))"

section \<open>The management database\<close>

text \<open>
  The schema makes \<open>tenants.id\<close> a primary key and \<open>(tenant_id, user_id)\<close> unique in
  \<open>tenant_users\<close>, so each table is a map from its key to the columns the routes select.
\<close>

record Tenant =
  status :: string
  plan :: string

record TenantUser =
  role :: string

record database =
  tenants :: "string \<rightharpoonup> Tenant"
  tenant_users :: "string \<times> string \<rightharpoonup> TenantUser"

text \<open>
  \<open>.single()\<close> of the Supabase client answers \<open>{data, error}\<close>: the row when exactly one
  matches, otherwise no data and an error.
\<close>

record 'a query_result =
  data :: "'a option"
  error :: "string option"

definition single :: "'a option \<Rightarrow> 'a query_result" where
  "single r = (case r of None \<Rightarrow> \<lparr>data = None, error = Some ''PGRST116''\<rparr>
                       | Some x \<Rightarrow> \<lparr>data = Some x, error = None\<rparr>)"

definition getManagementAdmin :: "env \<Rightarrow> database \<Rightarrow> exn + database" where
  "getManagementAdmin e db =
     (if \<not> truthy (MANAGEMENT_SUPABASE_SERVICE_ROLE_KEY e)
      then Inl (Error ''Management service role key not configured'')
      else Inr db)"

definition select_tenant :: "database \<Rightarrow> string \<Rightarrow> event \<times> Tenant query_result" where
  "select_tenant db tid = (Select ''tenants'' [(''id'', tid)], single (tenants db tid))"

definition select_tenant_user :: "database \<Rightarrow> string \<Rightarrow> string \<Rightarrow> event \<times> TenantUser query_result" where
  "select_tenant_user db tid uid =
     (Select ''tenant_users'' [(''tenant_id'', tid), (''user_id'', uid)],
      single (tenant_users db (tid, uid)))"

section \<open>The HTTP routes\<close>

text \<open>\<open>NextResponse.json(body, {status})\<close>; the status is 200 when none is given.\<close>

record 'b response =
  status_code :: nat
  json :: 'b

text \<open>
  \<open>await request.json()\<close> throws on a body that is not JSON, and destructuring the
  parsed body throws when it is \<open>null\<close>: \<open>NotJson m\<close> is such a body, with the message of
  the error thrown.
\<close>

datatype 'a request_body = NotJson string | JsonBody 'a

subsection \<open>\<open>POST /api/sso/validate\<close>\<close>

text \<open>
  The body's \<open>token\<close> field is \<open>None\<close> when it is missing or falsy. The JSON answer is
  an object of string fields, in the order written.
\<close>

definition POST_validate ::
  "env \<Rightarrow> database \<Rightarrow> nat \<Rightarrow> jwt option request_body \<Rightarrow> event list \<times> (string \<times> string) list response" where
  "POST_validate e db now request =
     (case request of
        NotJson m \<Rightarrow>
          ([ConsoleError ''SSO validation error:'' m],
           \<lparr>status_code = 500, json = [(''error'', ''Validation failed'')]\<rparr>)
      | JsonBody None \<Rightarrow>
          ([], \<lparr>status_code = 400, json = [(''error'', ''Token required'')]\<rparr>)
      | JsonBody (Some token) \<Rightarrow>
          (case validateSSOToken e now token of
             Inl (Error m) \<Rightarrow>
               ([ConsoleError ''SSO validation error:'' m],
                \<lparr>status_code = 500, json = [(''error'', ''Validation failed'')]\<rparr>)
           | Inr (logs, None) \<Rightarrow>
               (logs, \<lparr>status_code = 401, json = [(''error'', ''Invalid or expired token'')]\<rparr>)
           | Inr (logs, Some payload) \<Rightarrow>
               (case getManagementAdmin e db of
                  Inl (Error m) \<Rightarrow>
                    (logs @ [ConsoleError ''SSO validation error:'' m],
                     \<lparr>status_code = 500, json = [(''error'', ''Validation failed'')]\<rparr>)
                | Inr managementAdmin \<Rightarrow>
                    (let (q1, tenant) = select_tenant managementAdmin (tenant_id payload) in
                     if error tenant \<noteq> None \<or> data tenant = None then
                       (logs @ [q1],
                        \<lparr>status_code = 404, json = [(''error'', ''Tenant not found'')]\<rparr>)
                     else if status (the (data tenant)) \<noteq> ''active'' then
                       (logs @ [q1],
                        \<lparr>status_code = 403,
                         json = [(''error'', ''Tenant is '' @ status (the (data tenant)))]\<rparr>)
                     else
                       (let (q2, tenantUser) =
                              select_tenant_user managementAdmin (tenant_id payload) (user_id payload) in
                        if error tenantUser \<noteq> None \<or> data tenantUser = None then
                          (logs @ [q1, q2],
                           \<lparr>status_code = 403,
                            json = [(''error'', ''User does not have access to this tenant'')]\<rparr>)
                        else
                          (logs @ [q1, q2],
                           \<lparr>status_code = 200,
                            json = [(''tenant_id'', tenant_id payload),
                                    (''user_id'', user_id payload),
                                    (''email'', email payload),
                                    (''role'', role (the (data tenantUser))),
                                    (''plan'', plan (the (data tenant)))]\<rparr>))))))"

subsection \<open>\<open>POST /api/sso/generate\<close>\<close>

text \<open>
  The route reads the caller's identity from the \<open>authorization\<close> header by splitting
  the bearer token at the dots and decoding the second segment as base64 JSON, without
  verifying it. The header token is represented by what this decoding yields:
  \<^item> \<open>NoSegment\<close>: there is no second segment, or it is empty;
  \<^item> \<open>BadSegment m\<close>: the segment does not decode to a JSON object (\<open>JSON.parse\<close> or the
    property access throws), with the message of the error thrown;
  \<^item> \<open>Segment sub email\<close>: a JSON object with these optional \<open>sub\<close> and \<open>email\<close> fields.
\<close>

datatype bearer = NoSegment | BadSegment string | Segment "string option" "string option"

record generate_request =
  authorization :: "bearer option"
  body :: "string option request_body"

text \<open>The answer of the route: an error object, or the token and its access URL.\<close>

datatype generate_json =
    ErrorJson "(string \<times> string) list"
  | TokenJson jwt access_url

definition POST_generate ::
  "env \<Rightarrow> database \<Rightarrow> nat \<Rightarrow> generate_request \<Rightarrow> event list \<times> generate_json response" where
  "POST_generate e db now request =
     (case authorization request of
        None \<Rightarrow> ([], \<lparr>status_code = 401, json = ErrorJson [(''error'', ''Unauthorized'')]\<rparr>)
      | Some NoSegment \<Rightarrow>
          ([], \<lparr>status_code = 401, json = ErrorJson [(''error'', ''Invalid token format'')]\<rparr>)
      | Some (BadSegment m) \<Rightarrow>
          ([ConsoleError ''SSO generation error:'' m],
           \<lparr>status_code = 500,
            json = ErrorJson [(''error'', ''Failed to generate token''), (''details'', m)]\<rparr>)
      | Some (Segment userId userEmail) \<Rightarrow>
          if \<not> truthy userId then
            ([], \<lparr>status_code = 401, json = ErrorJson [(''error'', ''Invalid token'')]\<rparr>)
          else
            (case body request of
               NotJson m \<Rightarrow>
                 ([ConsoleError ''SSO generation error:'' m],
                  \<lparr>status_code = 500,
                   json = ErrorJson [(''error'', ''Failed to generate token''), (''details'', m)]\<rparr>)
             | JsonBody tenant_id' \<Rightarrow>
                 if \<not> truthy tenant_id' then
                   ([], \<lparr>status_code = 400, json = ErrorJson [(''error'', ''tenant_id required'')]\<rparr>)
                 else
                   (case getManagementAdmin e db of
                      Inl (Error m) \<Rightarrow>
                        ([ConsoleError ''SSO generation error:'' m],
                         \<lparr>status_code = 500,
                          json = ErrorJson [(''error'', ''Failed to generate token''), (''details'', m)]\<rparr>)
                    | Inr managementAdmin \<Rightarrow>
                        (let (q, tenantUser) =
                               select_tenant_user managementAdmin (the tenant_id') (the userId) in
                         if error tenantUser \<noteq> None \<or> data tenantUser = None then
                           ([q, ConsoleError ''Access check failed:'' (the (error tenantUser))],
                            \<lparr>status_code = 403, json = ErrorJson [(''error'', ''Access denied'')]\<rparr>)
                         else
                           (case generateSSOToken e now
                                   \<lparr>tenant_id = the tenant_id',
                                    user_id = the userId,
                                    email = or_else userEmail ''user@ycode.app''\<rparr> of
                              Inl (Error m) \<Rightarrow>
                                ([q, ConsoleError ''SSO generation error:'' m],
                                 \<lparr>status_code = 500,
                                  json = ErrorJson [(''error'', ''Failed to generate token''),
                                                    (''details'', m)]\<rparr>)
                            | Inr ssoToken \<Rightarrow>
                                ([q],
                                 \<lparr>status_code = 200,
                                  json = TokenJson ssoToken
                                           \<lparr>deploymentUrl =
                                              or_else (CLOUD_DEPLOYMENT_URL e) ''http://localhost:3000'',
                                            token_param = ssoToken\<rparr>\<rparr>))))))"

section \<open>A concrete deployment\<close>

text \<open>
  The scenario of the specification: tenant \<open>t1\<close>, user \<open>u1\<close> with e-mail \<open>a@b.com\<close>, a
  token minted at \<open>T0\<close> (milliseconds), and the variations of configuration, store and
  token that the statements below are evaluated on.
\<close>

definition example_env :: env where
  "example_env =
     \<lparr>SSO_SECRET = Some (Symmetric ''s3cret''),
      MANAGEMENT_SUPABASE_SERVICE_ROLE_KEY = Some ''service-role'',
      CLOUD_DEPLOYMENT_URL = None,
      NEXT_PUBLIC_CLOUD_DEPLOYMENT_URL = None\<rparr>"

definition env_without_secret :: env where
  "env_without_secret = example_env\<lparr>SSO_SECRET := None\<rparr>"

definition example_db :: database where
  "example_db =
     \<lparr>tenants = [''t1'' \<mapsto> \<lparr>status = ''active'', plan = ''pro''\<rparr>],
      tenant_users = [(''t1'', ''u1'') \<mapsto> \<lparr>role = ''owner''\<rparr>]\<rparr>"

definition suspended_db :: database where
  "suspended_db =
     example_db\<lparr>tenants := [''t1'' \<mapsto> \<lparr>status = ''suspended'', plan = ''pro''\<rparr>]\<rparr>"

definition revoked_db :: database where
  "revoked_db = example_db\<lparr>tenant_users := Map.empty\<rparr>"

definition example_input :: SSOTokenInput where
  "example_input = \<lparr>tenant_id = ''t1'', user_id = ''u1'', email = ''a@b.com''\<rparr>"

definition T0 :: nat where
  "T0 = 60000"

text \<open>The token minted for \<open>example_input\<close> at \<open>T0\<close>: issued at second 60, expiring at 960.\<close>

definition example_token :: jwt where
  "example_token =
     Compact \<lparr>alg = ''HS256'',
              claims = \<lparr>tenant_id = ''t1'', user_id = ''u1'', email = ''a@b.com'',
                        iat = Some 60, exp = Some (Number 960)\<rparr>,
              iss = Some ''ycode-cloud-management'',
              aud = [''ycode-cloud-deployment''],
              nbf = None,
              sig = HMAC ''s3cret''\<rparr>"

text \<open>The same claims under the MAC of another key.\<close>

definition foreign_token :: jwt where
  "foreign_token =
     Compact \<lparr>alg = ''HS256'',
              claims = \<lparr>tenant_id = ''t1'', user_id = ''u1'', email = ''a@b.com'',
                        iat = Some 60, exp = Some (Number 960)\<rparr>,
              iss = Some ''ycode-cloud-management'',
              aud = [''ycode-cloud-deployment''],
              nbf = None,
              sig = HMAC ''other-key''\<rparr>"

definition tenantless_db :: database where
  "tenantless_db = example_db\<lparr>tenants := Map.empty\<rparr>"

definition env_without_service_key :: env where
  "env_without_service_key = example_env\<lparr>MANAGEMENT_SUPABASE_SERVICE_ROLE_KEY := None\<rparr>"

text \<open>
  Two requests to the generation route for tenant \<open>t1\<close> by user \<open>u1\<close>: one whose
  primary token carries the e-mail claim, one whose primary token has none; and the
  token minted at \<open>T0\<close> for the second.
\<close>

definition example_request :: generate_request where
  "example_request =
     \<lparr>authorization = Some (Segment (Some ''u1'') (Some ''a@b.com'')),
      body = JsonBody (Some ''t1'')\<rparr>"

definition request_without_email :: generate_request where
  "request_without_email =
     \<lparr>authorization = Some (Segment (Some ''u1'') None),
      body = JsonBody (Some ''t1'')\<rparr>"

definition placeholder_token :: jwt where
  "placeholder_token =
     Compact \<lparr>alg = ''HS256'',
              claims = \<lparr>tenant_id = ''t1'', user_id = ''u1'', email = ''user@ycode.app'',
                        iat = Some 60, exp = Some (Number 960)\<rparr>,
              iss = Some ''ycode-cloud-management'',
              aud = [''ycode-cloud-deployment''],
              nbf = None,
              sig = HMAC ''s3cret''\<rparr>"

text \<open>
  A configuration whose \<open>SSO_SECRET\<close> holds an RSA key in PEM form, private or public,
  and a token signed by that key pair.
\<close>

definition rsa_key :: asymmetric_key where
  "rsa_key =
     \<lparr>asymmetricKeyType = Rsa,
      validFor = [''RS256'', ''RS384'', ''RS512'', ''PS256'', ''PS384'', ''PS512''],
      pem = ''-----BEGIN PUBLIC KEY-----''\<rparr>"

definition env_with_private_pem :: env where
  "env_with_private_pem = example_env\<lparr>SSO_SECRET := Some (PrivatePem rsa_key)\<rparr>"

definition env_with_public_pem :: env where
  "env_with_public_pem = example_env\<lparr>SSO_SECRET := Some (PublicPem rsa_key)\<rparr>"

text \<open>Tokens whose \<open>exp\<close> is the string \<open>'abc'\<close>, and missing.\<close>

definition token_with_text_exp :: jwt where
  "token_with_text_exp =
     Compact \<lparr>alg = ''HS256'',
              claims = \<lparr>tenant_id = ''t1'', user_id = ''u1'', email = ''a@b.com'',
                        iat = Some 60, exp = Some (Truthy None)\<rparr>,
              iss = None, aud = [], nbf = None, sig = Unsigned\<rparr>"

definition token_without_exp :: jwt where
  "token_without_exp =
     Compact \<lparr>alg = ''HS256'',
              claims = \<lparr>tenant_id = ''t1'', user_id = ''u1'', email = ''a@b.com'',
                        iat = Some 60, exp = None\<rparr>,
              iss = None, aud = [], nbf = None, sig = Unsigned\<rparr>"

text \<open>Five and sixteen minutes after \<open>T0\<close>.\<close>

definition T0_plus_5min :: nat where
  "T0_plus_5min = 360000"

definition T0_plus_16min :: nat where
  "T0_plus_16min = 1020000"

section \<open>Unfolding rules and shared lemmas\<close>

lemmas route_defs = POST_validate_def validateSSOToken_def getManagementAdmin_def
  select_tenant_def select_tenant_user_def single_def Let_def

lemmas codec_defs = generateSSOToken_def jwt_sign_def jwt_verify_def jwt_decode_def
  truthy_def secret_set_def default_algorithms_def signature_valid_def HS_ALGS_def
  RSA_KEY_ALGS_def EC_KEY_ALGS_def PUB_KEY_ALGS_def instanceof_TokenExpiredError_def
  instanceof_JsonWebTokenError_def

lemmas expiry_defs = isTokenExpired_def getTokenExpiration_def not_claim_def
  times_1000_def new_Date_def

lemmas example_defs = example_env_def env_without_secret_def example_db_def suspended_db_def
  revoked_db_def example_input_def T0_def example_token_def foreign_token_def
  T0_plus_5min_def T0_plus_16min_def tenantless_db_def env_without_service_key_def
  example_request_def request_without_email_def placeholder_token_def rsa_key_def
  env_with_private_pem_def env_with_public_pem_def token_with_text_exp_def
  token_without_exp_def

text \<open>A 200 answer of the validation route determines the whole run of the route.\<close>

lemma validate_200:
  assumes "status_code (snd (POST_validate e db now request)) = 200"
  shows "\<exists>token p t u.
          request = JsonBody (Some token) \<and>
          validateSSOToken e now token = Inr ([], Some p) \<and>
          tenants db (tenant_id p) = Some t \<and> status t = ''active'' \<and>
          tenant_users db (tenant_id p, user_id p) = Some u \<and>
          POST_validate e db now request =
            ([Select ''tenants'' [(''id'', tenant_id p)],
              Select ''tenant_users'' [(''tenant_id'', tenant_id p), (''user_id'', user_id p)]],
             \<lparr>status_code = 200,
              json = [(''tenant_id'', tenant_id p), (''user_id'', user_id p),
                      (''email'', email p), (''role'', role u), (''plan'', plan t)]\<rparr>)"
  using assms
  by (auto simp: route_defs
           split: request_body.splits option.splits sum.splits if_splits prod.splits)

text \<open>Whatever payload a minted token verifies to carries the minted custom claims.\<close>

lemma validate_minted_claims:
  assumes "generateSSOToken e t0 input = Inr token"
      and "validateSSOToken e' now token = Inr (logs, Some p)"
  shows "tenant_id p = tenant_id input \<and> user_id p = user_id input \<and> email p = email input"
  using assms
  by (auto simp: validateSSOToken_def codec_defs Let_def
           split: if_splits sum.splits option.splits key_material.splits time_claim.splits)

section \<open>Redemption honours only the current state of the store\<close>

text \<open>
  Claim C1. The validation route answers 200 only if, in the store it is run against,
  the tenant named by the verified claims exists with status \<open>active\<close> and a
  \<open>tenant_users\<close> row exists for the claims' tenant and user; in that run it has read
  both tables. The state at mint time plays no part: a token minted earlier is not
  answered with 200 once the tenant is missing or not active, or the grant is gone.
\<close>

theorem redeem_requires_current_grant_and_active_tenant:
  "(status_code (snd (POST_validate e db now request)) = 200 \<longrightarrow>
      (\<exists>token p t u.
          request = JsonBody (Some token) \<and>
          validateSSOToken e now token = Inr ([], Some p) \<and>
          tenants db (tenant_id p) = Some t \<and> status t = ''active'' \<and>
          tenant_users db (tenant_id p, user_id p) = Some u \<and>
          fst (POST_validate e db now request) =
            [Select ''tenants'' [(''id'', tenant_id p)],
             Select ''tenant_users'' [(''tenant_id'', tenant_id p), (''user_id'', user_id p)]]))
   \<and> (generateSSOToken e t0 input = Inr minted \<and>
        (tenants db' (tenant_id input) = None \<or>
         (\<exists>t. tenants db' (tenant_id input) = Some t \<and> status t \<noteq> ''active'') \<or>
         tenant_users db' (tenant_id input, user_id input) = None) \<longrightarrow>
        status_code (snd (POST_validate e db' now' (JsonBody (Some minted)))) \<noteq> 200)"
proof (intro conjI impI)
  assume "status_code (snd (POST_validate e db now request)) = 200"
  from validate_200 [OF this]
  show "\<exists>token p t u.
          request = JsonBody (Some token) \<and>
          validateSSOToken e now token = Inr ([], Some p) \<and>
          tenants db (tenant_id p) = Some t \<and> status t = ''active'' \<and>
          tenant_users db (tenant_id p, user_id p) = Some u \<and>
          fst (POST_validate e db now request) =
            [Select ''tenants'' [(''id'', tenant_id p)],
             Select ''tenant_users'' [(''tenant_id'', tenant_id p), (''user_id'', user_id p)]]"
    by auto
next
  assume a: "generateSSOToken e t0 input = Inr minted \<and>
        (tenants db' (tenant_id input) = None \<or>
         (\<exists>t. tenants db' (tenant_id input) = Some t \<and> status t \<noteq> ''active'') \<or>
         tenant_users db' (tenant_id input, user_id input) = None)"
  show "status_code (snd (POST_validate e db' now' (JsonBody (Some minted)))) \<noteq> 200"
  proof
    assume "status_code (snd (POST_validate e db' now' (JsonBody (Some minted)))) = 200"
    from validate_200 [OF this] obtain p t u where
      v: "validateSSOToken e now' minted = Inr ([], Some p)" and
      t: "tenants db' (tenant_id p) = Some t" "status t = ''active''" and
      u: "tenant_users db' (tenant_id p, user_id p) = Some u"
      by auto
    from a v have "tenant_id p = tenant_id input \<and> user_id p = user_id input"
      using validate_minted_claims by blast
    with a t u show False by auto
  qed
qed

theorem redeem_requires_current_grant_and_active_tenant_witness:
  "status_code (snd (POST_validate example_env example_db T0_plus_5min
                       (JsonBody (Some example_token)))) = 200
   \<and> fst (POST_validate example_env example_db T0_plus_5min (JsonBody (Some example_token))) =
            [Select ''tenants'' [(''id'', ''t1'')],
             Select ''tenant_users'' [(''tenant_id'', ''t1''), (''user_id'', ''u1'')]]
   \<and> generateSSOToken example_env T0 example_input = Inr example_token
   \<and> tenants suspended_db ''t1'' = Some \<lparr>status = ''suspended'', plan = ''pro''\<rparr>
   \<and> status_code (snd (POST_validate example_env suspended_db T0_plus_5min
                         (JsonBody (Some example_token)))) \<noteq> 200
   \<and> tenant_users revoked_db (''t1'', ''u1'') = None
   \<and> status_code (snd (POST_validate example_env revoked_db T0_plus_5min
                         (JsonBody (Some example_token)))) \<noteq> 200"
  using redeem_requires_current_grant_and_active_tenant
          [of example_env example_db T0_plus_5min "JsonBody (Some example_token)" T0
              example_input example_token suspended_db T0_plus_5min]
        redeem_requires_current_grant_and_active_tenant
          [of example_env example_db T0_plus_5min "JsonBody (Some example_token)" T0
              example_input example_token revoked_db T0_plus_5min]
  by (simp add: route_defs codec_defs example_defs)

text \<open>The answers of the validation route, one lemma for each way it ends.\<close>

lemma validate_throws:
  "validateSSOToken e now token = Inl (Error m) \<Longrightarrow>
   POST_validate e db now (JsonBody (Some token)) =
     ([ConsoleError ''SSO validation error:'' m],
      \<lparr>status_code = 500, json = [(''error'', ''Validation failed'')]\<rparr>)"
  by (simp add: POST_validate_def)

lemma validate_null:
  "validateSSOToken e now token = Inr (logs, None) \<Longrightarrow>
   POST_validate e db now (JsonBody (Some token)) =
     (logs, \<lparr>status_code = 401, json = [(''error'', ''Invalid or expired token'')]\<rparr>)"
  by (simp add: POST_validate_def)

lemma validate_no_admin:
  "validateSSOToken e now token = Inr (logs, Some p) \<Longrightarrow>
   \<not> truthy (MANAGEMENT_SUPABASE_SERVICE_ROLE_KEY e) \<Longrightarrow>
   POST_validate e db now (JsonBody (Some token)) =
     (logs @ [ConsoleError ''SSO validation error:''
                ''Management service role key not configured''],
      \<lparr>status_code = 500, json = [(''error'', ''Validation failed'')]\<rparr>)"
  by (simp add: POST_validate_def getManagementAdmin_def)

lemma validate_tenant_missing:
  "validateSSOToken e now token = Inr (logs, Some p) \<Longrightarrow>
   truthy (MANAGEMENT_SUPABASE_SERVICE_ROLE_KEY e) \<Longrightarrow>
   tenants db (tenant_id p) = None \<Longrightarrow>
   POST_validate e db now (JsonBody (Some token)) =
     (logs @ [Select ''tenants'' [(''id'', tenant_id p)]],
      \<lparr>status_code = 404, json = [(''error'', ''Tenant not found'')]\<rparr>)"
  by (simp add: POST_validate_def getManagementAdmin_def select_tenant_def single_def)

lemma validate_tenant_inactive:
  "validateSSOToken e now token = Inr (logs, Some p) \<Longrightarrow>
   truthy (MANAGEMENT_SUPABASE_SERVICE_ROLE_KEY e) \<Longrightarrow>
   tenants db (tenant_id p) = Some t \<Longrightarrow> status t \<noteq> ''active'' \<Longrightarrow>
   POST_validate e db now (JsonBody (Some token)) =
     (logs @ [Select ''tenants'' [(''id'', tenant_id p)]],
      \<lparr>status_code = 403, json = [(''error'', ''Tenant is '' @ status t)]\<rparr>)"
  by (simp add: POST_validate_def getManagementAdmin_def select_tenant_def single_def)

lemma validate_grant_missing:
  "validateSSOToken e now token = Inr (logs, Some p) \<Longrightarrow>
   truthy (MANAGEMENT_SUPABASE_SERVICE_ROLE_KEY e) \<Longrightarrow>
   tenants db (tenant_id p) = Some t \<Longrightarrow> status t = ''active'' \<Longrightarrow>
   tenant_users db (tenant_id p, user_id p) = None \<Longrightarrow>
   POST_validate e db now (JsonBody (Some token)) =
     (logs @ [Select ''tenants'' [(''id'', tenant_id p)],
              Select ''tenant_users'' [(''tenant_id'', tenant_id p), (''user_id'', user_id p)]],
      \<lparr>status_code = 403, json = [(''error'', ''User does not have access to this tenant'')]\<rparr>)"
  by (simp add: POST_validate_def getManagementAdmin_def select_tenant_def
                select_tenant_user_def single_def)

lemma validate_ok:
  "validateSSOToken e now token = Inr (logs, Some p) \<Longrightarrow>
   truthy (MANAGEMENT_SUPABASE_SERVICE_ROLE_KEY e) \<Longrightarrow>
   tenants db (tenant_id p) = Some t \<Longrightarrow> status t = ''active'' \<Longrightarrow>
   tenant_users db (tenant_id p, user_id p) = Some u \<Longrightarrow>
   POST_validate e db now (JsonBody (Some token)) =
     (logs @ [Select ''tenants'' [(''id'', tenant_id p)],
              Select ''tenant_users'' [(''tenant_id'', tenant_id p), (''user_id'', user_id p)]],
      \<lparr>status_code = 200,
       json = [(''tenant_id'', tenant_id p), (''user_id'', user_id p), (''email'', email p),
               (''role'', role u), (''plan'', plan t)]\<rparr>)"
  by (simp add: POST_validate_def getManagementAdmin_def select_tenant_def
                select_tenant_user_def single_def)

text \<open>
  A token freshly minted with a symmetric secret verifies, within its fifteen minutes,
  to its own claims.
\<close>

lemma validate_minted:
  assumes "SSO_SECRET e = Some (Symmetric s)"
      and "generateSSOToken e t0 input = Inr token"
      and "now div 1000 < t0 div 1000 + 900"
  shows "validateSSOToken e now token =
           Inr ([], Some \<lparr>tenant_id = tenant_id input, user_id = user_id input,
                          email = email input, iat = Some (t0 div 1000),
                          exp = Some (Number (int (t0 div 1000 + 900)))\<rparr>)"
  using assms
  by (auto simp: validateSSOToken_def codec_defs Let_def split: if_splits)

section \<open>Minting and redeeming at once\<close>

text \<open>
  Claim C3. When the shared secret is a symmetric one, minting for
  \<open>(tenant_id, user_id, email)\<close> returns a token, the store is reachable, the tenant is
  active and a grant for the pair exists, then redeeming the token before its fifteen
  minutes have passed answers 200 with the same tenant, user and e-mail, the grant's role
  and the tenant's plan.
\<close>

theorem mint_then_redeem_roundtrip:
  assumes "SSO_SECRET e = Some (Symmetric s)"
      and "generateSSOToken e t0 \<lparr>tenant_id = tid, user_id = uid, email = em\<rparr> = Inr token"
      and "truthy (MANAGEMENT_SUPABASE_SERVICE_ROLE_KEY e)"
      and "tenants db tid = Some t" and "status t = ''active''"
      and "tenant_users db (tid, uid) = Some u"
      and "now div 1000 < t0 div 1000 + 900"
  shows "POST_validate e db now (JsonBody (Some token)) =
           ([Select ''tenants'' [(''id'', tid)],
             Select ''tenant_users'' [(''tenant_id'', tid), (''user_id'', uid)]],
            \<lparr>status_code = 200,
             json = [(''tenant_id'', tid), (''user_id'', uid), (''email'', em),
                     (''role'', role u), (''plan'', plan t)]\<rparr>)"
proof -
  let ?p = "\<lparr>tenant_id = tid, user_id = uid, email = em, iat = Some (t0 div 1000),
             exp = Some (Number (int (t0 div 1000 + 900)))\<rparr>"
  have v: "validateSSOToken e now token = Inr ([], Some ?p)"
    using validate_minted [OF assms(1) assms(2) assms(7)] by simp
  show ?thesis
    using validate_ok [OF v assms(3), of db t u] assms(4-6) by simp
qed

theorem mint_then_redeem_roundtrip_witness:
  "SSO_SECRET example_env = Some (Symmetric ''s3cret'')
   \<and> generateSSOToken example_env T0 \<lparr>tenant_id = ''t1'', user_id = ''u1'', email = ''a@b.com''\<rparr>
     = Inr example_token
   \<and> truthy (MANAGEMENT_SUPABASE_SERVICE_ROLE_KEY example_env)
   \<and> tenants example_db ''t1'' = Some \<lparr>status = ''active'', plan = ''pro''\<rparr>
   \<and> tenant_users example_db (''t1'', ''u1'') = Some \<lparr>role = ''owner''\<rparr>
   \<and> T0_plus_5min div 1000 < T0 div 1000 + 900
   \<and> POST_validate example_env example_db T0_plus_5min (JsonBody (Some example_token)) =
        ([Select ''tenants'' [(''id'', ''t1'')],
          Select ''tenant_users'' [(''tenant_id'', ''t1''), (''user_id'', ''u1'')]],
         \<lparr>status_code = 200,
          json = [(''tenant_id'', ''t1''), (''user_id'', ''u1''), (''email'', ''a@b.com''),
                  (''role'', ''owner''), (''plan'', ''pro'')]\<rparr>)"
proof -
  have 0: "SSO_SECRET example_env = Some (Symmetric ''s3cret'')"
    by (simp add: example_defs)
  have 1: "generateSSOToken example_env T0
             \<lparr>tenant_id = ''t1'', user_id = ''u1'', email = ''a@b.com''\<rparr> = Inr example_token"
    by (simp add: codec_defs example_defs)
  have 2: "truthy (MANAGEMENT_SUPABASE_SERVICE_ROLE_KEY example_env)"
    by (simp add: truthy_def example_defs)
  have 3: "tenants example_db ''t1'' = Some \<lparr>status = ''active'', plan = ''pro''\<rparr>"
    by (simp add: example_defs)
  have 4: "status \<lparr>status = ''active'', plan = ''pro''\<rparr> = ''active''" by simp
  have 5: "tenant_users example_db (''t1'', ''u1'') = Some \<lparr>role = ''owner''\<rparr>"
    by (simp add: example_defs)
  have 6: "T0_plus_5min div 1000 < T0 div 1000 + 900" by (simp add: example_defs)
  from mint_then_redeem_roundtrip [OF 0 1 2 3 4 5 6] 0 1 2 3 5 6 show ?thesis by simp
qed

section \<open>The order of the checks at redemption\<close>

text \<open>The example token verifies five minutes after it was minted.\<close>

lemma example_validates:
  "validateSSOToken example_env T0_plus_5min example_token =
     Inr ([], Some \<lparr>tenant_id = ''t1'', user_id = ''u1'', email = ''a@b.com'',
                    iat = Some 60, exp = Some (Number 960)\<rparr>)"
  by (simp add: validateSSOToken_def codec_defs example_defs)

text \<open>
  Claim C2. For every token the validation route runs its checks in one order and stops
  at the first that fails. A missing token is answered 400 before anything else. Then
  (a) \<open>validateSSOToken\<close>: if it throws the answer is 500, if it returns null the answer
  is 401, and in both cases no table is read; (b) the tenant is read: a missing tenant is
  answered 404 and a tenant that is not active 403, and \<open>tenant_users\<close> is not read;
  (c) the grant is read: a missing grant is answered 403; (d) only when all three pass
  the answer is 200 with tenant, user, e-mail, the grant's role and the tenant's plan.
\<close>

theorem redeem_checks_in_fixed_order:
  "POST_validate e db now (JsonBody None) =
     ([], \<lparr>status_code = 400, json = [(''error'', ''Token required'')]\<rparr>)
   \<and> (validateSSOToken e now token = Inl (Error m) \<longrightarrow>
      POST_validate e db now (JsonBody (Some token)) =
        ([ConsoleError ''SSO validation error:'' m],
         \<lparr>status_code = 500, json = [(''error'', ''Validation failed'')]\<rparr>))
   \<and> (validateSSOToken e now token = Inr (logs, None) \<longrightarrow>
      POST_validate e db now (JsonBody (Some token)) =
        (logs, \<lparr>status_code = 401, json = [(''error'', ''Invalid or expired token'')]\<rparr>))
   \<and> (validateSSOToken e now token = Inr (logs, Some p) \<and>
        \<not> truthy (MANAGEMENT_SUPABASE_SERVICE_ROLE_KEY e) \<longrightarrow>
      POST_validate e db now (JsonBody (Some token)) =
        (logs @ [ConsoleError ''SSO validation error:''
                   ''Management service role key not configured''],
         \<lparr>status_code = 500, json = [(''error'', ''Validation failed'')]\<rparr>))
   \<and> (validateSSOToken e now token = Inr (logs, Some p) \<and>
        truthy (MANAGEMENT_SUPABASE_SERVICE_ROLE_KEY e) \<longrightarrow>
        (tenants db (tenant_id p) = None \<longrightarrow>
           POST_validate e db now (JsonBody (Some token)) =
             (logs @ [Select ''tenants'' [(''id'', tenant_id p)]],
              \<lparr>status_code = 404, json = [(''error'', ''Tenant not found'')]\<rparr>))
        \<and> (tenants db (tenant_id p) = Some t \<and> status t \<noteq> ''active'' \<longrightarrow>
           POST_validate e db now (JsonBody (Some token)) =
             (logs @ [Select ''tenants'' [(''id'', tenant_id p)]],
              \<lparr>status_code = 403, json = [(''error'', ''Tenant is '' @ status t)]\<rparr>))
        \<and> (tenants db (tenant_id p) = Some t \<and> status t = ''active'' \<and>
            tenant_users db (tenant_id p, user_id p) = None \<longrightarrow>
           POST_validate e db now (JsonBody (Some token)) =
             (logs @ [Select ''tenants'' [(''id'', tenant_id p)],
                      Select ''tenant_users''
                        [(''tenant_id'', tenant_id p), (''user_id'', user_id p)]],
              \<lparr>status_code = 403,
               json = [(''error'', ''User does not have access to this tenant'')]\<rparr>))
        \<and> (tenants db (tenant_id p) = Some t \<and> status t = ''active'' \<and>
            tenant_users db (tenant_id p, user_id p) = Some u \<longrightarrow>
           POST_validate e db now (JsonBody (Some token)) =
             (logs @ [Select ''tenants'' [(''id'', tenant_id p)],
                      Select ''tenant_users''
                        [(''tenant_id'', tenant_id p), (''user_id'', user_id p)]],
              \<lparr>status_code = 200,
               json = [(''tenant_id'', tenant_id p), (''user_id'', user_id p),
                       (''email'', email p), (''role'', role u), (''plan'', plan t)]\<rparr>)))"
proof -
  have "POST_validate e db now (JsonBody None) =
          ([], \<lparr>status_code = 400, json = [(''error'', ''Token required'')]\<rparr>)"
    by (simp add: POST_validate_def)
  then show ?thesis
    using validate_throws [of e now token m db] validate_null [of e now token logs db]
          validate_no_admin [of e now token logs p db]
          validate_tenant_missing [of e now token logs p db]
          validate_tenant_inactive [of e now token logs p db t]
          validate_grant_missing [of e now token logs p db t]
          validate_ok [of e now token logs p db t u]
    by blast
qed

theorem redeem_checks_in_fixed_order_witness:
  "validateSSOToken env_without_secret T0 example_token = Inl (Error ''SSO_SECRET not configured'')
   \<and> POST_validate env_without_service_key example_db T0_plus_5min (JsonBody (Some example_token)) =
        ([ConsoleError ''SSO validation error:'' ''Management service role key not configured''],
         \<lparr>status_code = 500, json = [(''error'', ''Validation failed'')]\<rparr>)
   \<and> POST_validate env_without_secret example_db T0 (JsonBody (Some example_token)) =
        ([ConsoleError ''SSO validation error:'' ''SSO_SECRET not configured''],
         \<lparr>status_code = 500, json = [(''error'', ''Validation failed'')]\<rparr>)
   \<and> validateSSOToken example_env T0 Malformed = Inr ([ConsoleLog ''Invalid SSO token''], None)
   \<and> POST_validate example_env example_db T0 (JsonBody (Some Malformed)) =
        ([ConsoleLog ''Invalid SSO token''],
         \<lparr>status_code = 401, json = [(''error'', ''Invalid or expired token'')]\<rparr>)
   \<and> POST_validate example_env tenantless_db T0_plus_5min (JsonBody (Some example_token)) =
        ([Select ''tenants'' [(''id'', ''t1'')]],
         \<lparr>status_code = 404, json = [(''error'', ''Tenant not found'')]\<rparr>)
   \<and> POST_validate example_env suspended_db T0_plus_5min (JsonBody (Some example_token)) =
        ([Select ''tenants'' [(''id'', ''t1'')]],
         \<lparr>status_code = 403, json = [(''error'', ''Tenant is suspended'')]\<rparr>)
   \<and> POST_validate example_env revoked_db T0_plus_5min (JsonBody (Some example_token)) =
        ([Select ''tenants'' [(''id'', ''t1'')],
          Select ''tenant_users'' [(''tenant_id'', ''t1''), (''user_id'', ''u1'')]],
         \<lparr>status_code = 403,
          json = [(''error'', ''User does not have access to this tenant'')]\<rparr>)
   \<and> POST_validate example_env example_db T0_plus_5min (JsonBody (Some example_token)) =
        ([Select ''tenants'' [(''id'', ''t1'')],
          Select ''tenant_users'' [(''tenant_id'', ''t1''), (''user_id'', ''u1'')]],
         \<lparr>status_code = 200,
          json = [(''tenant_id'', ''t1''), (''user_id'', ''u1''), (''email'', ''a@b.com''),
                  (''role'', ''owner''), (''plan'', ''pro'')]\<rparr>)"
proof -
  let ?p = "\<lparr>tenant_id = ''t1'', user_id = ''u1'', email = ''a@b.com'',
             iat = Some 60, exp = Some (Number 960)\<rparr>"
  have a: "validateSSOToken env_without_secret T0 example_token =
             Inl (Error ''SSO_SECRET not configured'')"
    by (simp add: validateSSOToken_def codec_defs example_defs)
  have b: "validateSSOToken example_env T0 Malformed = Inr ([ConsoleLog ''Invalid SSO token''], None)"
    by (simp add: validateSSOToken_def codec_defs example_defs)
  have k: "truthy (MANAGEMENT_SUPABASE_SERVICE_ROLE_KEY example_env)"
    by (simp add: truthy_def example_defs)
  have t0: "tenants tenantless_db ''t1'' = None" by (simp add: example_defs)
  have t1: "tenants suspended_db ''t1'' = Some \<lparr>status = ''suspended'', plan = ''pro''\<rparr>"
    by (simp add: example_defs)
  have t2: "tenants revoked_db ''t1'' = Some \<lparr>status = ''active'', plan = ''pro''\<rparr>"
           "tenant_users revoked_db (''t1'', ''u1'') = None"
    by (simp_all add: example_defs)
  have t3: "tenants example_db ''t1'' = Some \<lparr>status = ''active'', plan = ''pro''\<rparr>"
           "tenant_users example_db (''t1'', ''u1'') = Some \<lparr>role = ''owner''\<rparr>"
    by (simp_all add: example_defs)
  note v = example_validates
  have v': "validateSSOToken env_without_service_key T0_plus_5min example_token = Inr ([], Some ?p)"
    by (simp add: validateSSOToken_def codec_defs example_defs)
  have k': "\<not> truthy (MANAGEMENT_SUPABASE_SERVICE_ROLE_KEY env_without_service_key)"
    by (simp add: truthy_def example_defs)
  from redeem_checks_in_fixed_order [of env_without_secret example_db T0 example_token
              "''SSO_SECRET not configured''"]
       redeem_checks_in_fixed_order [of example_env example_db T0 Malformed _ "[ConsoleLog ''Invalid SSO token'']"]
       redeem_checks_in_fixed_order [of example_env tenantless_db T0_plus_5min example_token _ "[]" ?p]
       redeem_checks_in_fixed_order [of example_env suspended_db T0_plus_5min example_token _ "[]" ?p
              "\<lparr>status = ''suspended'', plan = ''pro''\<rparr>"]
       redeem_checks_in_fixed_order [of example_env revoked_db T0_plus_5min example_token _ "[]" ?p
              "\<lparr>status = ''active'', plan = ''pro''\<rparr>"]
       redeem_checks_in_fixed_order [of example_env example_db T0_plus_5min example_token _ "[]" ?p
              "\<lparr>status = ''active'', plan = ''pro''\<rparr>" "\<lparr>role = ''owner''\<rparr>"]
       redeem_checks_in_fixed_order [of env_without_service_key example_db T0_plus_5min example_token _ "[]" ?p]
       a b k t0 t1 t2 t3 v v' k'
  show ?thesis by simp
qed

section \<open>What a rejected redemption tells the caller\<close>

text \<open>
  Claim C4 says that all causes of a failed redemption are answered alike. They are not:
  the same token is answered 401 once expired, 404 when its tenant is missing, 403 with
  the tenant's status when the tenant is suspended, and 403 with another message when
  the grant is gone.
\<close>

theorem redeem_failures_distinguishable:
  "snd (POST_validate example_env example_db T0_plus_16min (JsonBody (Some example_token))) =
     \<lparr>status_code = 401, json = [(''error'', ''Invalid or expired token'')]\<rparr>
   \<and> snd (POST_validate example_env tenantless_db T0_plus_5min (JsonBody (Some example_token))) =
     \<lparr>status_code = 404, json = [(''error'', ''Tenant not found'')]\<rparr>
   \<and> snd (POST_validate example_env suspended_db T0_plus_5min (JsonBody (Some example_token))) =
     \<lparr>status_code = 403, json = [(''error'', ''Tenant is suspended'')]\<rparr>
   \<and> snd (POST_validate example_env revoked_db T0_plus_5min (JsonBody (Some example_token))) =
     \<lparr>status_code = 403, json = [(''error'', ''User does not have access to this tenant'')]\<rparr>
   \<and> snd (POST_validate example_env example_db T0_plus_16min (JsonBody (Some example_token))) \<noteq>
     snd (POST_validate example_env suspended_db T0_plus_5min (JsonBody (Some example_token)))"
  by (simp add: route_defs codec_defs example_defs)

text \<open>
  Claim C4, amended. The failures of the token itself (expired, bad signature or format)
  are answered alike, with 401 and \<open>Invalid or expired token\<close>, whatever the store holds.
  A missing tenant is answered 404 \<open>Tenant not found\<close>, a tenant that is not active 403
  \<open>Tenant is\<close> followed by its status, and a missing grant 403
  \<open>User does not have access to this tenant\<close>, which differs from the answer for an
  inactive tenant.
\<close>

theorem redeem_failure_answers:
  "(validateSSOToken ea na token_a = Inr (logs_a, None) \<and>
    validateSSOToken eb nb token_b = Inr (logs_b, None) \<longrightarrow>
      snd (POST_validate ea db_a na (JsonBody (Some token_a))) =
        \<lparr>status_code = 401, json = [(''error'', ''Invalid or expired token'')]\<rparr> \<and>
      snd (POST_validate eb db_b nb (JsonBody (Some token_b))) =
        snd (POST_validate ea db_a na (JsonBody (Some token_a))))
   \<and> (validateSSOToken e now token = Inr (logs, Some p) \<and>
        truthy (MANAGEMENT_SUPABASE_SERVICE_ROLE_KEY e) \<longrightarrow>
        (tenants db (tenant_id p) = None \<longrightarrow>
           snd (POST_validate e db now (JsonBody (Some token))) =
             \<lparr>status_code = 404, json = [(''error'', ''Tenant not found'')]\<rparr>)
        \<and> (tenants db (tenant_id p) = Some t \<and> status t \<noteq> ''active'' \<longrightarrow>
           snd (POST_validate e db now (JsonBody (Some token))) =
             \<lparr>status_code = 403, json = [(''error'', ''Tenant is '' @ status t)]\<rparr>
           \<and> snd (POST_validate e db now (JsonBody (Some token))) \<noteq>
             \<lparr>status_code = 403,
              json = [(''error'', ''User does not have access to this tenant'')]\<rparr>)
        \<and> (tenants db (tenant_id p) = Some t \<and> status t = ''active'' \<and>
            tenant_users db (tenant_id p, user_id p) = None \<longrightarrow>
           snd (POST_validate e db now (JsonBody (Some token))) =
             \<lparr>status_code = 403,
              json = [(''error'', ''User does not have access to this tenant'')]\<rparr>))"
  using validate_null [of ea na token_a logs_a db_a] validate_null [of eb nb token_b logs_b db_b]
        validate_tenant_missing [of e now token logs p db]
        validate_tenant_inactive [of e now token logs p db t]
        validate_grant_missing [of e now token logs p db t]
  by auto

theorem redeem_failure_answers_witness:
  "validateSSOToken example_env T0_plus_16min example_token =
     Inr ([ConsoleLog ''SSO token expired''], None)
   \<and> validateSSOToken example_env T0_plus_5min foreign_token =
     Inr ([ConsoleLog ''Invalid SSO token''], None)
   \<and> snd (POST_validate example_env example_db T0_plus_16min (JsonBody (Some example_token))) =
     \<lparr>status_code = 401, json = [(''error'', ''Invalid or expired token'')]\<rparr>
   \<and> snd (POST_validate example_env example_db T0_plus_5min (JsonBody (Some foreign_token))) =
     snd (POST_validate example_env example_db T0_plus_16min (JsonBody (Some example_token)))
   \<and> snd (POST_validate example_env tenantless_db T0_plus_5min (JsonBody (Some example_token))) =
     \<lparr>status_code = 404, json = [(''error'', ''Tenant not found'')]\<rparr>
   \<and> snd (POST_validate example_env suspended_db T0_plus_5min (JsonBody (Some example_token))) =
     \<lparr>status_code = 403, json = [(''error'', ''Tenant is suspended'')]\<rparr>
   \<and> snd (POST_validate example_env revoked_db T0_plus_5min (JsonBody (Some example_token))) =
     \<lparr>status_code = 403, json = [(''error'', ''User does not have access to this tenant'')]\<rparr>"
proof -
  let ?p = "\<lparr>tenant_id = ''t1'', user_id = ''u1'', email = ''a@b.com'',
             iat = Some 60, exp = Some (Number 960)\<rparr>"
  have a: "validateSSOToken example_env T0_plus_16min example_token =
             Inr ([ConsoleLog ''SSO token expired''], None)"
    by (simp add: validateSSOToken_def codec_defs example_defs)
  have b: "validateSSOToken example_env T0_plus_5min foreign_token =
             Inr ([ConsoleLog ''Invalid SSO token''], None)"
    by (simp add: validateSSOToken_def codec_defs example_defs)
  have k: "truthy (MANAGEMENT_SUPABASE_SERVICE_ROLE_KEY example_env)"
    by (simp add: truthy_def example_defs)
  have t0: "tenants tenantless_db ''t1'' = None" by (simp add: example_defs)
  have t1: "tenants suspended_db ''t1'' = Some \<lparr>status = ''suspended'', plan = ''pro''\<rparr>"
    by (simp add: example_defs)
  have t2: "tenants revoked_db ''t1'' = Some \<lparr>status = ''active'', plan = ''pro''\<rparr>"
           "tenant_users revoked_db (''t1'', ''u1'') = None"
    by (simp_all add: example_defs)
  note v = example_validates
  from redeem_failure_answers [where ea = example_env and na = T0_plus_16min and token_a = example_token
             and logs_a = "[ConsoleLog ''SSO token expired'']" and eb = example_env
             and nb = T0_plus_5min and token_b = foreign_token
             and logs_b = "[ConsoleLog ''Invalid SSO token'']" and db_a = example_db
             and db_b = example_db and e = example_env and now = T0_plus_5min
             and token = example_token and logs = "[]" and p = ?p and db = tenantless_db]
       redeem_failure_answers [where ea = example_env and na = T0_plus_16min and token_a = example_token
             and logs_a = "[ConsoleLog ''SSO token expired'']" and eb = example_env
             and nb = T0_plus_5min and token_b = foreign_token
             and logs_b = "[ConsoleLog ''Invalid SSO token'']" and db_a = example_db
             and db_b = example_db and e = example_env and now = T0_plus_5min
             and token = example_token and logs = "[]" and p = ?p and db = suspended_db
             and t = "\<lparr>status = ''suspended'', plan = ''pro''\<rparr>"]
       redeem_failure_answers [where ea = example_env and na = T0_plus_16min and token_a = example_token
             and logs_a = "[ConsoleLog ''SSO token expired'']" and eb = example_env
             and nb = T0_plus_5min and token_b = foreign_token
             and logs_b = "[ConsoleLog ''Invalid SSO token'']" and db_a = example_db
             and db_b = example_db and e = example_env and now = T0_plus_5min
             and token = example_token and logs = "[]" and p = ?p and db = revoked_db
             and t = "\<lparr>status = ''active'', plan = ''pro''\<rparr>"]
       a b k t0 t1 t2 v
  show ?thesis by simp
qed

section \<open>What \<open>validateSSOToken\<close> returns\<close>




section \<open>Expired tokens\<close>

text \<open>
  Claim C6 says that a token past its expiry is reported as expired whether or not its
  signature is valid. A token past its expiry that carries the MAC of another key is
  reported as invalid, not as expired: the signature is checked first.
\<close>

theorem expired_foreign_token_reported_invalid:
  "isTokenExpired T0_plus_16min foreign_token
   \<and> validateSSOToken example_env T0_plus_16min foreign_token =
       Inr ([ConsoleLog ''Invalid SSO token''], None)
   \<and> validateSSOToken example_env T0_plus_16min foreign_token \<noteq>
       Inr ([ConsoleLog ''SSO token expired''], None)"
  by (simp add: validateSSOToken_def expiry_defs codec_defs example_defs)

text \<open>
  Claim C6, amended. With a symmetric secret configured, every token whose \<open>exp\<close> lies in
  the past at redemption is answered 401 with \<open>Invalid or expired token\<close>, whether or not
  its signature is valid, and no table is read. The cause written to the console is
  \<open>SSO token expired\<close> only when signature and algorithm are valid and \<open>nbf\<close> is absent or
  has passed; otherwise it is \<open>Invalid SSO token\<close>.
\<close>

theorem expired_token_answered_401:
  "SSO_SECRET e = Some (Symmetric s) \<and> s \<noteq> [] \<and>
   exp (claims j) = Some (Number x) \<and> x \<le> int (now div 1000) \<longrightarrow>
     POST_validate e db now (JsonBody (Some (Compact j))) =
       ([ConsoleLog
           (if sig j = HMAC s \<and> alg j \<in> set HS_ALGS \<and>
               (case nbf j of None \<Rightarrow> True | Some (Number n) \<Rightarrow> n \<le> int (now div 1000)
                | Some _ \<Rightarrow> False)
            then ''SSO token expired'' else ''Invalid SSO token'')],
        \<lparr>status_code = 401, json = [(''error'', ''Invalid or expired token'')]\<rparr>)"
proof
  assume a: "SSO_SECRET e = Some (Symmetric s) \<and> s \<noteq> [] \<and>
   exp (claims j) = Some (Number x) \<and> x \<le> int (now div 1000)"
  then have "validateSSOToken e now (Compact j) =
      Inr ([ConsoleLog
           (if sig j = HMAC s \<and> alg j \<in> set HS_ALGS \<and>
               (case nbf j of None \<Rightarrow> True | Some (Number n) \<Rightarrow> n \<le> int (now div 1000)
                | Some _ \<Rightarrow> False)
            then ''SSO token expired'' else ''Invalid SSO token'')], None)"
    by (auto simp: validateSSOToken_def secret_set_def jwt_verify_def Let_def
                   default_algorithms_def signature_valid_def
                   instanceof_TokenExpiredError_def instanceof_JsonWebTokenError_def
             split: option.splits time_claim.splits)
  from validate_null [OF this]
  show "POST_validate e db now (JsonBody (Some (Compact j))) =
       ([ConsoleLog
           (if sig j = HMAC s \<and> alg j \<in> set HS_ALGS \<and>
               (case nbf j of None \<Rightarrow> True | Some (Number n) \<Rightarrow> n \<le> int (now div 1000)
                | Some _ \<Rightarrow> False)
            then ''SSO token expired'' else ''Invalid SSO token'')],
        \<lparr>status_code = 401, json = [(''error'', ''Invalid or expired token'')]\<rparr>)" .
qed

theorem expired_token_answered_401_witness:
  "SSO_SECRET example_env = Some (Symmetric ''s3cret'')
   \<and> (960::int) \<le> int (T0_plus_16min div 1000)
   \<and> POST_validate example_env example_db T0_plus_16min (JsonBody (Some example_token)) =
       ([ConsoleLog ''SSO token expired''],
        \<lparr>status_code = 401, json = [(''error'', ''Invalid or expired token'')]\<rparr>)
   \<and> POST_validate example_env example_db T0_plus_16min (JsonBody (Some foreign_token)) =
       ([ConsoleLog ''Invalid SSO token''],
        \<lparr>status_code = 401, json = [(''error'', ''Invalid or expired token'')]\<rparr>)"
proof -
  let ?c = "\<lparr>tenant_id = ''t1'', user_id = ''u1'', email = ''a@b.com'',
             iat = Some 60, exp = Some (Number 960)\<rparr>"
  let ?j = "\<lparr>alg = ''HS256'', claims = ?c, iss = Some ''ycode-cloud-management'',
             aud = [''ycode-cloud-deployment''], nbf = None, sig = HMAC ''s3cret''\<rparr>"
  let ?f = "\<lparr>alg = ''HS256'', claims = ?c, iss = Some ''ycode-cloud-management'',
             aud = [''ycode-cloud-deployment''], nbf = None, sig = HMAC ''other-key''\<rparr>"
  have s: "SSO_SECRET example_env = Some (Symmetric ''s3cret'')" "''s3cret'' \<noteq> []"
    by (simp_all add: example_defs)
  have t: "(960::int) \<le> int (T0_plus_16min div 1000)" by (simp add: example_defs)
  have j: "example_token = Compact ?j" "foreign_token = Compact ?f"
    by (simp_all add: example_defs)
  from expired_token_answered_401
         [of example_env "''s3cret''" ?j 960 T0_plus_16min example_db]
       expired_token_answered_401
         [of example_env "''s3cret''" ?f 960 T0_plus_16min example_db]
       s t j
  show ?thesis by (simp add: HS_ALGS_def)
qed

section \<open>Minted claims\<close>

text \<open>
  Claim C7. With a symmetric shared secret configured, \<open>generateSSOToken\<close> returns a token
  that decodes to the given tenant, user and e-mail, with \<open>iat\<close> the second of minting
  and \<open>exp\<close> fifteen minutes later, issuer \<open>ycode-cloud-management\<close> and audience
  \<open>ycode-cloud-deployment\<close>, signed with the secret under HS256; verification returns
  null for a token with another issuer or without that audience. With the secret absent
  or empty, \<open>generateSSOToken\<close> throws instead of returning a token. It also throws when
  the configured string is a PEM private key, which is no shared secret.
\<close>

theorem generateSSOToken_claims:
  "(SSO_SECRET e = Some (Symmetric s) \<and> s \<noteq> [] \<longrightarrow>
      (\<exists>j. generateSSOToken e now input = Inr (Compact j) \<and>
           jwt_decode (Compact j) = Inr (Some (claims j)) \<and>
           tenant_id (claims j) = tenant_id input \<and>
           user_id (claims j) = user_id input \<and>
           email (claims j) = email input \<and>
           iat (claims j) = Some (now div 1000) \<and>
           exp (claims j) = Some (Number (int (now div 1000 + 15 * 60))) \<and>
           iss j = Some ''ycode-cloud-management'' \<and>
           aud j = [''ycode-cloud-deployment''] \<and>
           nbf j = None \<and>
           alg j = ''HS256'' \<and>
           sig j = HMAC s))
   \<and> (SSO_SECRET e = Some (Symmetric s) \<and> s \<noteq> [] \<and>
        (iss j' \<noteq> Some ''ycode-cloud-management'' \<or>
         ''ycode-cloud-deployment'' \<notin> set (aud j')) \<longrightarrow>
        (\<exists>logs. validateSSOToken e now' (Compact j') = Inr (logs, None)))
   \<and> (\<not> secret_set (SSO_SECRET e) \<longrightarrow>
        generateSSOToken e now input = Inl (Error ''SSO_SECRET not configured''))
   \<and> (SSO_SECRET e = Some (PrivatePem k) \<longrightarrow>
        generateSSOToken e now input =
          Inl (Error ''secretOrPrivateKey must be a symmetric key when using HS256''))"
proof (intro conjI impI)
  assume "SSO_SECRET e = Some (Symmetric s) \<and> s \<noteq> []"
  then show "\<exists>j. generateSSOToken e now input = Inr (Compact j) \<and>
           jwt_decode (Compact j) = Inr (Some (claims j)) \<and>
           tenant_id (claims j) = tenant_id input \<and>
           user_id (claims j) = user_id input \<and>
           email (claims j) = email input \<and>
           iat (claims j) = Some (now div 1000) \<and>
           exp (claims j) = Some (Number (int (now div 1000 + 15 * 60))) \<and>
           iss j = Some ''ycode-cloud-management'' \<and>
           aud j = [''ycode-cloud-deployment''] \<and>
           nbf j = None \<and>
           alg j = ''HS256'' \<and>
           sig j = HMAC s"
    by (simp add: generateSSOToken_def secret_set_def jwt_sign_def jwt_decode_def Let_def)
next
  assume "SSO_SECRET e = Some (Symmetric s) \<and> s \<noteq> [] \<and>
        (iss j' \<noteq> Some ''ycode-cloud-management'' \<or>
         ''ycode-cloud-deployment'' \<notin> set (aud j'))"
  then show "\<exists>logs. validateSSOToken e now' (Compact j') = Inr (logs, None)"
    by (auto simp: validateSSOToken_def secret_set_def jwt_verify_def Let_def
             split: option.splits time_claim.splits)
next
  assume "\<not> secret_set (SSO_SECRET e)"
  then show "generateSSOToken e now input = Inl (Error ''SSO_SECRET not configured'')"
    by (simp add: generateSSOToken_def)
next
  assume "SSO_SECRET e = Some (PrivatePem k)"
  then show "generateSSOToken e now input =
          Inl (Error ''secretOrPrivateKey must be a symmetric key when using HS256'')"
    by (simp add: generateSSOToken_def secret_set_def jwt_sign_def Let_def)
qed

theorem generateSSOToken_claims_witness:
  "SSO_SECRET example_env = Some (Symmetric ''s3cret'')
   \<and> generateSSOToken example_env T0 example_input = Inr example_token
   \<and> jwt_decode example_token =
       Inr (Some \<lparr>tenant_id = ''t1'', user_id = ''u1'', email = ''a@b.com'',
                  iat = Some 60, exp = Some (Number 960)\<rparr>)
   \<and> validateSSOToken example_env T0_plus_5min
        (Compact \<lparr>alg = ''HS256'',
                  claims = \<lparr>tenant_id = ''t1'', user_id = ''u1'', email = ''a@b.com'',
                            iat = Some 60, exp = Some (Number 960)\<rparr>,
                  iss = Some ''another-issuer'',
                  aud = [''ycode-cloud-deployment''],
                  nbf = None,
                  sig = HMAC ''s3cret''\<rparr>) = Inr ([ConsoleLog ''Invalid SSO token''], None)
   \<and> \<not> secret_set (SSO_SECRET env_without_secret)
   \<and> generateSSOToken env_without_secret T0 example_input =
       Inl (Error ''SSO_SECRET not configured'')
   \<and> SSO_SECRET env_with_private_pem = Some (PrivatePem rsa_key)
   \<and> generateSSOToken env_with_private_pem T0 example_input =
       Inl (Error ''secretOrPrivateKey must be a symmetric key when using HS256'')"
proof -
  let ?c = "\<lparr>tenant_id = ''t1'', user_id = ''u1'', email = ''a@b.com'',
             iat = Some 60, exp = Some (Number 960)\<rparr>"
  let ?j' = "\<lparr>alg = ''HS256'', claims = ?c, iss = Some ''another-issuer'',
              aud = [''ycode-cloud-deployment''], nbf = None, sig = HMAC ''s3cret''\<rparr>"
  have s: "SSO_SECRET example_env = Some (Symmetric ''s3cret'')" "''s3cret'' \<noteq> []"
          "\<not> secret_set (SSO_SECRET env_without_secret)"
          "SSO_SECRET env_with_private_pem = Some (PrivatePem rsa_key)"
    by (simp_all add: secret_set_def example_defs)
  have i: "iss ?j' \<noteq> Some ''ycode-cloud-management''" by simp
  from generateSSOToken_claims
         [where e = example_env and s = "''s3cret''" and now = T0 and input = example_input
            and j' = ?j' and now' = T0_plus_5min and k = rsa_key]
       generateSSOToken_claims
         [where e = env_without_secret and s = "''s3cret''" and now = T0
            and input = example_input and j' = ?j' and now' = T0_plus_5min and k = rsa_key]
       generateSSOToken_claims
         [where e = env_with_private_pem and s = "''s3cret''" and now = T0
            and input = example_input and j' = ?j' and now' = T0_plus_5min and k = rsa_key]
       s i
  show ?thesis
    by (simp add: validateSSOToken_def codec_defs example_defs)
qed

section \<open>Reading the expiry without verifying\<close>




section \<open>Minting through \<open>POST /api/sso/generate\<close>\<close>

text \<open>The generation route for an identified caller who holds a grant on the tenant.\<close>

lemma generate_ok:
  assumes "authorization request = Some (Segment (Some uid) em)" and "uid \<noteq> []"
      and "body request = JsonBody (Some tid)" and "tid \<noteq> []"
      and "SSO_SECRET e = Some (Symmetric s)" and "s \<noteq> []"
      and "truthy (MANAGEMENT_SUPABASE_SERVICE_ROLE_KEY e)"
      and "tenant_users db (tid, uid) = Some u"
  shows "\<exists>tok. generateSSOToken e now
                 \<lparr>tenant_id = tid, user_id = uid, email = or_else em ''user@ycode.app''\<rparr> = Inr tok \<and>
               POST_generate e db now request =
                 ([Select ''tenant_users'' [(''tenant_id'', tid), (''user_id'', uid)]],
                  \<lparr>status_code = 200,
                   json = TokenJson tok
                            \<lparr>deploymentUrl =
                               or_else (CLOUD_DEPLOYMENT_URL e) ''http://localhost:3000'',
                             token_param = tok\<rparr>\<rparr>)"
  using assms
  by (simp add: POST_generate_def generateSSOToken_def secret_set_def jwt_sign_def
                getManagementAdmin_def select_tenant_user_def single_def truthy_def Let_def)

text \<open>The generation route reads no table but \<open>tenant_users\<close>.\<close>

lemma generate_events:
  "ev \<in> set (fst (POST_generate e db now request)) \<Longrightarrow>
   (\<exists>l m. ev = ConsoleError l m) \<or> (\<exists>f. ev = Select ''tenant_users'' f)"
  by (auto simp: POST_generate_def getManagementAdmin_def select_tenant_user_def Let_def
           split: option.splits bearer.splits request_body.splits sum.splits exn.splits
                  if_splits)

lemma generate_ignores_tenants:
  "POST_generate e (db\<lparr>tenants := ts\<rparr>) now request = POST_generate e db now request"
  by (simp add: POST_generate_def getManagementAdmin_def select_tenant_user_def
           cong: option.case_cong bearer.case_cong request_body.case_cong sum.case_cong
                 if_cong)

text \<open>
  Claim C9. The generation route never reads the \<open>tenants\<close> table: its run is the same
  whatever that table holds, and no read of it occurs. So, with a symmetric secret
  configured, for a caller who holds a grant
  on a tenant that is suspended or cancelled the route still answers 200 with a token;
  that token is never honoured while the tenant stays inactive, and within its validity
  its redemption is answered 403 with the tenant's status.
\<close>

theorem mint_ignores_tenant_status:
  "POST_generate e (db\<lparr>tenants := ts\<rparr>) now request = POST_generate e db now request
   \<and> Select ''tenants'' filters \<notin> set (fst (POST_generate e db now request))
   \<and> (authorization request = Some (Segment (Some uid) em) \<and> uid \<noteq> [] \<and>
       body request = JsonBody (Some tid) \<and> tid \<noteq> [] \<and>
       SSO_SECRET e = Some (Symmetric s) \<and> s \<noteq> [] \<and>
       truthy (MANAGEMENT_SUPABASE_SERVICE_ROLE_KEY e) \<and>
       tenant_users db (tid, uid) = Some u \<and>
       tenants db tid = Some t \<and> status t \<noteq> ''active'' \<longrightarrow>
       (\<exists>tok. POST_generate e db now request =
                 ([Select ''tenant_users'' [(''tenant_id'', tid), (''user_id'', uid)]],
                  \<lparr>status_code = 200,
                   json = TokenJson tok
                            \<lparr>deploymentUrl =
                               or_else (CLOUD_DEPLOYMENT_URL e) ''http://localhost:3000'',
                             token_param = tok\<rparr>\<rparr>) \<and>
              status_code (snd (POST_validate e db now' (JsonBody (Some tok)))) \<noteq> 200 \<and>
              (now' div 1000 < now div 1000 + 900 \<longrightarrow>
                 POST_validate e db now' (JsonBody (Some tok)) =
                   ([Select ''tenants'' [(''id'', tid)]],
                    \<lparr>status_code = 403, json = [(''error'', ''Tenant is '' @ status t)]\<rparr>))))"
proof (intro conjI impI)
  show "POST_generate e (db\<lparr>tenants := ts\<rparr>) now request = POST_generate e db now request"
    by (rule generate_ignores_tenants)
next
  show "Select ''tenants'' filters \<notin> set (fst (POST_generate e db now request))"
    using generate_events [of "Select ''tenants'' filters" e db now request] by auto
next
  assume a: "authorization request = Some (Segment (Some uid) em) \<and> uid \<noteq> [] \<and>
       body request = JsonBody (Some tid) \<and> tid \<noteq> [] \<and>
       SSO_SECRET e = Some (Symmetric s) \<and> s \<noteq> [] \<and>
       truthy (MANAGEMENT_SUPABASE_SERVICE_ROLE_KEY e) \<and>
       tenant_users db (tid, uid) = Some u \<and>
       tenants db tid = Some t \<and> status t \<noteq> ''active''"
  let ?input = "\<lparr>tenant_id = tid, user_id = uid, email = or_else em ''user@ycode.app''\<rparr>"
  from a have sk: "SSO_SECRET e = Some (Symmetric s)" by simp
  from a generate_ok [of request uid em tid e s db u now] obtain tok where
    m: "generateSSOToken e now ?input = Inr tok" and
    g: "POST_generate e db now request =
          ([Select ''tenant_users'' [(''tenant_id'', tid), (''user_id'', uid)]],
           \<lparr>status_code = 200,
            json = TokenJson tok
                     \<lparr>deploymentUrl = or_else (CLOUD_DEPLOYMENT_URL e) ''http://localhost:3000'',
                      token_param = tok\<rparr>\<rparr>)"
    by blast
  have n: "status_code (snd (POST_validate e db now' (JsonBody (Some tok)))) \<noteq> 200"
  proof
    assume "status_code (snd (POST_validate e db now' (JsonBody (Some tok)))) = 200"
    from validate_200 [OF this] obtain p t' where
      v: "validateSSOToken e now' tok = Inr ([], Some p)" and
      t': "tenants db (tenant_id p) = Some t'" "status t' = ''active''"
      by auto
    from validate_minted_claims [OF m v] have "tenant_id p = tid" by simp
    with a t' show False by simp
  qed
  have r: "now' div 1000 < now div 1000 + 900 \<longrightarrow>
                 POST_validate e db now' (JsonBody (Some tok)) =
                   ([Select ''tenants'' [(''id'', tid)]],
                    \<lparr>status_code = 403, json = [(''error'', ''Tenant is '' @ status t)]\<rparr>)"
  proof
    assume "now' div 1000 < now div 1000 + 900"
    from validate_minted [OF sk m this] a
    show "POST_validate e db now' (JsonBody (Some tok)) =
                   ([Select ''tenants'' [(''id'', tid)]],
                    \<lparr>status_code = 403, json = [(''error'', ''Tenant is '' @ status t)]\<rparr>)"
      using validate_tenant_inactive [of e now' tok "[]" _ db t] by simp
  qed
  from g n r
  show "\<exists>tok. POST_generate e db now request =
                 ([Select ''tenant_users'' [(''tenant_id'', tid), (''user_id'', uid)]],
                  \<lparr>status_code = 200,
                   json = TokenJson tok
                            \<lparr>deploymentUrl =
                               or_else (CLOUD_DEPLOYMENT_URL e) ''http://localhost:3000'',
                             token_param = tok\<rparr>\<rparr>) \<and>
              status_code (snd (POST_validate e db now' (JsonBody (Some tok)))) \<noteq> 200 \<and>
              (now' div 1000 < now div 1000 + 900 \<longrightarrow>
                 POST_validate e db now' (JsonBody (Some tok)) =
                   ([Select ''tenants'' [(''id'', tid)]],
                    \<lparr>status_code = 403, json = [(''error'', ''Tenant is '' @ status t)]\<rparr>))"
    by blast
qed

theorem mint_ignores_tenant_status_witness:
  "authorization example_request = Some (Segment (Some ''u1'') (Some ''a@b.com''))
   \<and> body example_request = JsonBody (Some ''t1'')
   \<and> SSO_SECRET example_env = Some (Symmetric ''s3cret'')
   \<and> truthy (MANAGEMENT_SUPABASE_SERVICE_ROLE_KEY example_env)
   \<and> tenant_users suspended_db (''t1'', ''u1'') = Some \<lparr>role = ''owner''\<rparr>
   \<and> tenants suspended_db ''t1'' = Some \<lparr>status = ''suspended'', plan = ''pro''\<rparr>
   \<and> POST_generate example_env suspended_db T0 example_request =
        ([Select ''tenant_users'' [(''tenant_id'', ''t1''), (''user_id'', ''u1'')]],
         \<lparr>status_code = 200,
          json = TokenJson example_token
                   \<lparr>deploymentUrl = ''http://localhost:3000'', token_param = example_token\<rparr>\<rparr>)
   \<and> POST_generate example_env example_db T0 example_request =
       POST_generate example_env suspended_db T0 example_request
   \<and> POST_validate example_env suspended_db T0_plus_5min (JsonBody (Some example_token)) =
        ([Select ''tenants'' [(''id'', ''t1'')]],
         \<lparr>status_code = 403, json = [(''error'', ''Tenant is suspended'')]\<rparr>)"
  using mint_ignores_tenant_status [where e = example_env and db = suspended_db and ts = "tenants example_db"
              and s = "''s3cret''"
              and now = T0 and request = example_request and uid = "''u1''"
              and em = "Some ''a@b.com''" and tid = "''t1''" and u = "\<lparr>role = ''owner''\<rparr>"
              and t = "\<lparr>status = ''suspended'', plan = ''pro''\<rparr>" and now' = T0_plus_5min]
  by (simp add: POST_generate_def route_defs codec_defs example_defs or_else_def)

text \<open>
  Claim C10. When the caller's primary token has no e-mail claim (or an empty one), the
  generation route, with a symmetric secret configured, mints the token with the e-mail \<open>user@ycode.app\<close>; every redemption
  of that token that is answered 200 carries this e-mail, and its redemption against
  the same store, with the tenant active and before expiry, is answered 200 with it.
\<close>

theorem mint_placeholder_email:
  "authorization request = Some (Segment (Some uid) em) \<and> \<not> truthy em \<and> uid \<noteq> [] \<and>
   body request = JsonBody (Some tid) \<and> tid \<noteq> [] \<and>
   SSO_SECRET e = Some (Symmetric s) \<and> s \<noteq> [] \<and>
       truthy (MANAGEMENT_SUPABASE_SERVICE_ROLE_KEY e) \<and>
   tenant_users db (tid, uid) = Some u \<longrightarrow>
     (\<exists>j. snd (POST_generate e db now request) =
            \<lparr>status_code = 200,
             json = TokenJson (Compact j)
                      \<lparr>deploymentUrl =
                         or_else (CLOUD_DEPLOYMENT_URL e) ''http://localhost:3000'',
                       token_param = Compact j\<rparr>\<rparr> \<and>
          email (claims j) = ''user@ycode.app'' \<and>
          (status_code (snd (POST_validate e' db' now' (JsonBody (Some (Compact j))))) = 200 \<longrightarrow>
             (''email'', ''user@ycode.app'') \<in>
               set (json (snd (POST_validate e' db' now' (JsonBody (Some (Compact j))))))) \<and>
          (tenants db tid = Some t \<and> status t = ''active'' \<and>
           now' div 1000 < now div 1000 + 900 \<longrightarrow>
             snd (POST_validate e db now' (JsonBody (Some (Compact j)))) =
               \<lparr>status_code = 200,
                json = [(''tenant_id'', tid), (''user_id'', uid),
                        (''email'', ''user@ycode.app''),
                        (''role'', role u), (''plan'', plan t)]\<rparr>))"
proof
  assume a: "authorization request = Some (Segment (Some uid) em) \<and> \<not> truthy em \<and> uid \<noteq> [] \<and>
   body request = JsonBody (Some tid) \<and> tid \<noteq> [] \<and>
   SSO_SECRET e = Some (Symmetric s) \<and> s \<noteq> [] \<and>
       truthy (MANAGEMENT_SUPABASE_SERVICE_ROLE_KEY e) \<and>
   tenant_users db (tid, uid) = Some u"
  then have pe: "or_else em ''user@ycode.app'' = ''user@ycode.app''"
    by (auto simp: or_else_def truthy_def split: option.splits)
  let ?input = "\<lparr>tenant_id = tid, user_id = uid, email = ''user@ycode.app''\<rparr>"
  from a have sk: "SSO_SECRET e = Some (Symmetric s)" by simp
  from a pe generate_ok [of request uid em tid e s db u now] obtain tok where
    m: "generateSSOToken e now ?input = Inr tok" and
    g: "POST_generate e db now request =
          ([Select ''tenant_users'' [(''tenant_id'', tid), (''user_id'', uid)]],
           \<lparr>status_code = 200,
            json = TokenJson tok
                     \<lparr>deploymentUrl = or_else (CLOUD_DEPLOYMENT_URL e) ''http://localhost:3000'',
                      token_param = tok\<rparr>\<rparr>)"
    by auto
  from m obtain j where j: "tok = Compact j" and ej: "email (claims j) = ''user@ycode.app''"
    by (auto simp: generateSSOToken_def jwt_sign_def Let_def
             split: if_splits key_material.splits)
  have any: "status_code (snd (POST_validate e' db' now' (JsonBody (Some tok)))) = 200 \<longrightarrow>
             (''email'', ''user@ycode.app'') \<in>
               set (json (snd (POST_validate e' db' now' (JsonBody (Some tok)))))"
  proof
    assume "status_code (snd (POST_validate e' db' now' (JsonBody (Some tok)))) = 200"
    from validate_200 [OF this] obtain p where
      v: "validateSSOToken e' now' tok = Inr ([], Some p)" and
      r: "(''email'', email p) \<in>
            set (json (snd (POST_validate e' db' now' (JsonBody (Some tok)))))"
      by auto
    from validate_minted_claims [OF m v] have "email p = ''user@ycode.app''" by simp
    with r show "(''email'', ''user@ycode.app'') \<in>
               set (json (snd (POST_validate e' db' now' (JsonBody (Some tok)))))"
      by simp
  qed
  have here: "tenants db tid = Some t \<and> status t = ''active'' \<and>
           now' div 1000 < now div 1000 + 900 \<longrightarrow>
             snd (POST_validate e db now' (JsonBody (Some tok))) =
               \<lparr>status_code = 200,
                json = [(''tenant_id'', tid), (''user_id'', uid),
                        (''email'', ''user@ycode.app''),
                        (''role'', role u), (''plan'', plan t)]\<rparr>"
  proof
    assume b: "tenants db tid = Some t \<and> status t = ''active'' \<and>
           now' div 1000 < now div 1000 + 900"
    then have "now' div 1000 < now div 1000 + 900" by simp
    from validate_minted [OF sk m this] a b
    show "snd (POST_validate e db now' (JsonBody (Some tok))) =
               \<lparr>status_code = 200,
                json = [(''tenant_id'', tid), (''user_id'', uid),
                        (''email'', ''user@ycode.app''),
                        (''role'', role u), (''plan'', plan t)]\<rparr>"
      using validate_ok [of e now' tok "[]" _ db t u] by simp
  qed
  from g j ej any here
  show "\<exists>j. snd (POST_generate e db now request) =
            \<lparr>status_code = 200,
             json = TokenJson (Compact j)
                      \<lparr>deploymentUrl =
                         or_else (CLOUD_DEPLOYMENT_URL e) ''http://localhost:3000'',
                       token_param = Compact j\<rparr>\<rparr> \<and>
          email (claims j) = ''user@ycode.app'' \<and>
          (status_code (snd (POST_validate e' db' now' (JsonBody (Some (Compact j))))) = 200 \<longrightarrow>
             (''email'', ''user@ycode.app'') \<in>
               set (json (snd (POST_validate e' db' now' (JsonBody (Some (Compact j))))))) \<and>
          (tenants db tid = Some t \<and> status t = ''active'' \<and>
           now' div 1000 < now div 1000 + 900 \<longrightarrow>
             snd (POST_validate e db now' (JsonBody (Some (Compact j)))) =
               \<lparr>status_code = 200,
                json = [(''tenant_id'', tid), (''user_id'', uid),
                        (''email'', ''user@ycode.app''),
                        (''role'', role u), (''plan'', plan t)]\<rparr>)"
    by auto
qed

theorem mint_placeholder_email_witness:
  "authorization request_without_email = Some (Segment (Some ''u1'') None)
   \<and> \<not> truthy None
   \<and> body request_without_email = JsonBody (Some ''t1'')
   \<and> SSO_SECRET example_env = Some (Symmetric ''s3cret'')
   \<and> truthy (MANAGEMENT_SUPABASE_SERVICE_ROLE_KEY example_env)
   \<and> tenant_users example_db (''t1'', ''u1'') = Some \<lparr>role = ''owner''\<rparr>
   \<and> tenants example_db ''t1'' = Some \<lparr>status = ''active'', plan = ''pro''\<rparr>
   \<and> snd (POST_generate example_env example_db T0 request_without_email) =
        \<lparr>status_code = 200,
         json = TokenJson placeholder_token
                  \<lparr>deploymentUrl = ''http://localhost:3000'',
                   token_param = placeholder_token\<rparr>\<rparr>
   \<and> snd (POST_validate example_env example_db T0_plus_5min (JsonBody (Some placeholder_token))) =
        \<lparr>status_code = 200,
         json = [(''tenant_id'', ''t1''), (''user_id'', ''u1''), (''email'', ''user@ycode.app''),
                 (''role'', ''owner''), (''plan'', ''pro'')]\<rparr>"
  using mint_placeholder_email [where e = example_env and s = "''s3cret''" and db = example_db and now = T0
               and request = request_without_email and uid = "''u1''" and em = None
               and tid = "''t1''" and u = "\<lparr>role = ''owner''\<rparr>"
               and t = "\<lparr>status = ''active'', plan = ''pro''\<rparr>" and now' = T0_plus_5min
               and e' = example_env and db' = example_db]
  by (simp add: POST_generate_def route_defs codec_defs example_defs or_else_def)

end
